theory Spec2Isabelle
  imports Complex_Main
begin

section \<open>Values decoded from the log\<close>

text \<open>
  The reconstructor of \<^verbatim>\<open>end-to-end/consume_logs.py\<close> works on whatever
  \<^verbatim>\<open>json.loads\<close> returns for a line, so the model starts from the decoded values:
  \<^verbatim>\<open>None\<close>, booleans, integers, floats, strings, lists and dicts. A dict is an
  association list in insertion order (a decoded dict has each key once). Python floats
  are idealised as exact rationals: the model has no rounding, no NaN and no infinity.
\<close>

datatype json =
    JNull
  | JBool bool
  | JInt int
  | JFloat rat
  | JStr string
  | JArr "json list"
  | JObj "(string \<times> json) list"

type_synonym dict = "(string \<times> json) list"

text \<open>
  The exceptions of the model. \<^verbatim>\<open>AttributeError\<close> and \<^verbatim>\<open>TypeError\<close> arise in the
  code itself and escape it. \<^verbatim>\<open>json.loads\<close> raises \<^verbatim>\<open>JSONDecodeError\<close> on text that
  is not JSON, and also \<^verbatim>\<open>RecursionError\<close> (a line nested too deeply) and a plain
  \<^verbatim>\<open>ValueError\<close> (an integer literal with too many digits); the loop catches the first
  only. The \<^verbatim>\<open>ValueError\<close> of \<^verbatim>\<open>datetime.fromisoformat\<close> is caught where it arises
  and is the \<open>None\<close> of the parser.
\<close>

datatype py_error =
    AttributeError
  | TypeError
  | JSONDecodeError
  | RecursionError
  | ValueError

text \<open>\<^verbatim>\<open>d.get(k)\<close>, \<^verbatim>\<open>d.get(k, default)\<close> and \<^verbatim>\<open>k in d\<close>.\<close>

definition dict_get :: "dict \<Rightarrow> string \<Rightarrow> json" where
  "dict_get d k = (case map_of d k of None \<Rightarrow> JNull | Some v \<Rightarrow> v)"

definition dict_get_default :: "dict \<Rightarrow> string \<Rightarrow> json \<Rightarrow> json" where
  "dict_get_default d k dflt = (case map_of d k of None \<Rightarrow> dflt | Some v \<Rightarrow> v)"

definition has_key :: "dict \<Rightarrow> string \<Rightarrow> bool" where
  "has_key d k = (map_of d k \<noteq> None)"

text \<open>Python's truth value of a decoded value, as used by \<^verbatim>\<open>if x:\<close>.\<close>

fun truthy :: "json \<Rightarrow> bool" where
  "truthy JNull = False"
| "truthy (JBool b) = b"
| "truthy (JInt i) = (i \<noteq> 0)"
| "truthy (JFloat r) = (r \<noteq> 0)"
| "truthy (JStr s) = (s \<noteq> [])"
| "truthy (JArr xs) = (xs \<noteq> [])"
| "truthy (JObj d) = (d \<noteq> [])"

text \<open>
  Python's \<^verbatim>\<open>==\<close> on decoded values: booleans, integers and floats compare by numeric
  value (\<^verbatim>\<open>True == 1 == 1.0\<close>), lists element by element, dicts by key set and values
  whatever the order, and values of different kinds are unequal.
\<close>

fun py_num :: "json \<Rightarrow> rat option" where
  "py_num (JBool b) = Some (if b then 1 else 0)"
| "py_num (JInt i) = Some (of_int i)"
| "py_num (JFloat r) = Some r"
| "py_num _ = None"

fun py_eq :: "json \<Rightarrow> json \<Rightarrow> bool"
  and py_eq_list :: "json list \<Rightarrow> json list \<Rightarrow> bool"
  and py_eq_items :: "dict \<Rightarrow> dict \<Rightarrow> bool" where
  "py_eq JNull b = (b = JNull)"
| "py_eq (JStr s) b = (b = JStr s)"
| "py_eq (JArr xs) b = (case b of JArr ys \<Rightarrow> py_eq_list xs ys | _ \<Rightarrow> False)"
| "py_eq (JObj d) b =
     (case b of JObj e \<Rightarrow> length d = length e \<and> py_eq_items d e | _ \<Rightarrow> False)"
| "py_eq (JBool x) b = (py_num b = py_num (JBool x))"
| "py_eq (JInt x) b = (py_num b = py_num (JInt x))"
| "py_eq (JFloat x) b = (py_num b = py_num (JFloat x))"
| "py_eq_list [] ys = (ys = [])"
| "py_eq_list (x # xs) ys =
     (case ys of [] \<Rightarrow> False | y # ys' \<Rightarrow> py_eq x y \<and> py_eq_list xs ys')"
| "py_eq_items [] e = True"
| "py_eq_items ((k, v) # d) e =
     (case map_of e k of None \<Rightarrow> False | Some w \<Rightarrow> py_eq v w \<and> py_eq_items d e)"

section \<open>Timestamps\<close>

text \<open>
  \<^verbatim>\<open>datetime\<close> belongs to the standard library. A parsed timestamp is the record of
  its calendar fields and of the UTC offset of its fixed-offset \<^verbatim>\<open>tzinfo\<close>, in
  microseconds (\<open>None\<close> for a naive value). The parser \<^verbatim>\<open>datetime.fromisoformat\<close> is a
  parameter \<open>fromisoformat\<close> of the model, \<open>None\<close> standing for its \<^verbatim>\<open>ValueError\<close>. The
  subtraction follows \<^verbatim>\<open>datetime.__sub__\<close>: proleptic Gregorian ordinals, and a
  \<^verbatim>\<open>TypeError\<close> when exactly one operand is naive.
\<close>

record datetime =
  year :: int
  month :: int
  day :: int
  hour :: int
  minute :: int
  second :: int
  microsecond :: int
  utcoffset :: "int option"

definition is_leap :: "int \<Rightarrow> bool" where
  "is_leap y = (y mod 4 = 0 \<and> (y mod 100 \<noteq> 0 \<or> y mod 400 = 0))"

definition days_before_year :: "int \<Rightarrow> int" where
  "days_before_year y = (y - 1) * 365 + (y - 1) div 4 - (y - 1) div 100 + (y - 1) div 400"

definition days_before_month :: "int \<Rightarrow> int \<Rightarrow> int" where
  "days_before_month y m =
     (if 1 \<le> m \<and> m \<le> 12
      then [0, 31, 59, 90, 120, 151, 181, 212, 243, 273, 304, 334] ! nat (m - 1) else 0)
     + (if m > 2 \<and> is_leap y then 1 else 0)"

definition toordinal :: "datetime \<Rightarrow> int" where
  "toordinal d = days_before_year (year d) + days_before_month (year d) (month d) + day d"

text \<open>The difference \<^verbatim>\<open>a - b\<close> as a number of microseconds.\<close>

definition datetime_sub :: "datetime \<Rightarrow> datetime \<Rightarrow> py_error + int" where
  "datetime_sub a b =
     (let base = ((toordinal a - toordinal b) * 86400
                  + ((second a + minute a * 60 + hour a * 3600)
                     - (second b + minute b * 60 + hour b * 3600))) * 1000000
                 + (microsecond a - microsecond b)
      in case (utcoffset a, utcoffset b) of
           (None, None) \<Rightarrow> Inr base
         | (Some myoff, Some otoff) \<Rightarrow> Inr (base + otoff - myoff)
         | _ \<Rightarrow> Inl TypeError)"

definition total_seconds :: "int \<Rightarrow> rat" where
  "total_seconds us = of_int us / 1000000"

text \<open>\<^verbatim>\<open>s.replace("Z", "+00:00")\<close>: every occurrence is replaced.\<close>

definition replace_Z :: "string \<Rightarrow> string" where
  "replace_Z s = concat (map (\<lambda>c. if c = CHR ''Z'' then ''+00:00'' else [c]) s)"

section \<open>Test cases and results\<close>

record test_case =
  name :: json
  session_id :: json
  start_time :: json
  end_time :: json
  duration :: "rat option"
  status :: string
  request :: dict
  responses :: "json list"
  final_result :: dict
  errors :: "json list"
  progress_messages :: "json list"

record summary =
  total_tests :: nat
  successful_tests :: nat
  failed_tests :: nat
  incomplete_tests :: nat
  success_rate :: rat
  total_duration :: rat
  average_duration :: rat
  test_names :: "json list"

text \<open>The \<^verbatim>\<open>results\<close> dict: \<^verbatim>\<open>parse_log_file\<close> creates it with two keys, and
  \<^verbatim>\<open>save_results\<close> adds the other two.\<close>

record results =
  run_info :: dict
  test_cases :: "test_case list"
  summary :: "summary option"
  generated_at :: "string option"

definition extract_run_header :: "dict \<Rightarrow> dict" where
  "extract_run_header log_entry =
     [(''timestamp'', dict_get log_entry ''ts''),
      (''endpoint_id'', dict_get log_entry ''endpoint_id''),
      (''websocket_url'', dict_get log_entry ''url'')]"

definition initialize_test_case :: "dict \<Rightarrow> test_case" where
  "initialize_test_case log_entry =
     \<lparr>name = dict_get log_entry ''case'',
      session_id = dict_get log_entry ''session'',
      start_time = dict_get log_entry ''ts'',
      end_time = JNull,
      duration = None,
      status = ''running'',
      request = [],
      responses = [],
      final_result = [],
      errors = [],
      progress_messages = []\<rparr>"

text \<open>\<^verbatim>\<open>request_data.get\<close> needs a dict: any other value of the \<^verbatim>\<open>request\<close> key
  raises \<^verbatim>\<open>AttributeError\<close>.\<close>

definition extract_request_data :: "dict \<Rightarrow> py_error + dict" where
  "extract_request_data log_entry =
     (case dict_get_default log_entry ''request'' (JObj []) of
        JObj request_data \<Rightarrow>
          Inr [(''prompt'', dict_get request_data ''prompt''),
               (''env_id'', dict_get request_data ''env_id''),
               (''where'', dict_get request_data ''where''),
               (''when'', dict_get request_data ''when''),
               (''metric_filters'', dict_get_default request_data ''metricFilters'' (JArr [])),
               (''use_vector_search'',
                  dict_get_default request_data ''useVectorSearch'' (JBool False)),
               (''additional_params'',
                  JObj (filter (\<lambda>(k, v). k \<notin> set [''prompt'', ''env_id'', ''session_id'',
                          ''where'', ''when'', ''metricFilters'', ''useVectorSearch''])
                        request_data))]
      | _ \<Rightarrow> Inl AttributeError)"

definition extract_success_data :: "dict \<Rightarrow> py_error + dict" where
  "extract_success_data frame =
     (case dict_get_default frame ''data'' (JObj []) of
        JObj data \<Rightarrow>
          Inr [(''message'', dict_get frame ''message''),
               (''timestamp'', dict_get frame ''ts''),
               (''key_findings'', dict_get data ''key_findings''),
               (''trends_anomalies'', dict_get data ''trends_anomalies''),
               (''recommendations'', dict_get data ''recommendations''),
               (''data_quality'', dict_get data ''data_quality''),
               (''executive_summary'', dict_get data ''executive_summary''),
               (''key_metrics'', dict_get data ''key_metrics''),
               (''alerts'', dict_get data ''alerts''),
               (''context'', dict_get data ''context''),
               (''scores'',
                  JObj [(''relevance'', dict_get data ''relevance_score''),
                        (''completeness'', dict_get data ''completeness_score''),
                        (''quality'', dict_get data ''quality_score'')]),
               (''evaluation_notes'', dict_get data ''evaluation_notes'')]
      | _ \<Rightarrow> Inl AttributeError)"

definition process_frame_data :: "test_case \<Rightarrow> json \<Rightarrow> py_error + test_case" where
  "process_frame_data tc frame_value =
     (case frame_value of
        JObj frame \<Rightarrow>
          (let frame_status = dict_get frame ''status'';
               frame_message = dict_get_default frame ''message'' (JStr []);
               frame_timestamp = dict_get frame ''ts'';
               tc1 = tc\<lparr>responses := responses tc @
                        [JObj [(''status'', frame_status),
                               (''message'', frame_message),
                               (''timestamp'', frame_timestamp),
                               (''data'', dict_get frame ''data'')]]\<rparr>
           in if py_eq frame_status (JStr ''progress'') then
                Inr (tc1\<lparr>progress_messages := progress_messages tc1 @
                        [JObj [(''message'', frame_message),
                               (''timestamp'', frame_timestamp),
                               (''data'', dict_get frame ''data'')]]\<rparr>)
              else if py_eq frame_status (JStr ''success'') then
                (case extract_success_data frame of
                   Inl err \<Rightarrow> Inl err
                 | Inr r \<Rightarrow> Inr (tc1\<lparr>status := ''success'', final_result := r\<rparr>))
              else if py_eq frame_status (JStr ''error'') then
                Inr (tc1\<lparr>status := ''error'',
                         errors := errors tc1 @
                           [JObj [(''type'', JStr ''execution_error''),
                                  (''message'', frame_message),
                                  (''timestamp'', frame_timestamp),
                                  (''data'', dict_get frame ''data'')]]\<rparr>)
              else Inr tc1)
      | _ \<Rightarrow> Inl AttributeError)"

text \<open>
  The duration block of \<^verbatim>\<open>finalize_test_case\<close>: \<^verbatim>\<open>.replace\<close> exists on strings only,
  so a truthy timestamp of another kind raises \<^verbatim>\<open>AttributeError\<close>; a string the
  parser refuses is the caught \<^verbatim>\<open>ValueError\<close>; the start is handled before the end.
\<close>

definition compute_duration ::
  "(string \<Rightarrow> datetime option) \<Rightarrow> json \<Rightarrow> json \<Rightarrow> py_error + rat option" where
  "compute_duration fromisoformat start_time_str end_time_str =
     (if truthy start_time_str \<and> truthy end_time_str then
        (case start_time_str of
           JStr s \<Rightarrow>
             (case fromisoformat (replace_Z s) of
                None \<Rightarrow> Inr None
              | Some start_dt \<Rightarrow>
                  (case end_time_str of
                     JStr e \<Rightarrow>
                       (case fromisoformat (replace_Z e) of
                          None \<Rightarrow> Inr None
                        | Some end_dt \<Rightarrow>
                            (case datetime_sub end_dt start_dt of
                               Inl err \<Rightarrow> Inl err
                             | Inr us \<Rightarrow> Inr (Some (total_seconds us))))
                   | _ \<Rightarrow> Inl AttributeError))
         | _ \<Rightarrow> Inl AttributeError)
      else Inr None)"

definition finalize_test_case ::
  "(string \<Rightarrow> datetime option) \<Rightarrow> test_case \<Rightarrow> py_error + test_case" where
  "finalize_test_case fromisoformat tc =
     (case compute_duration fromisoformat (start_time tc) (end_time tc) of
        Inl err \<Rightarrow> Inl err
      | Inr d \<Rightarrow>
          (let tc1 = tc\<lparr>duration := d\<rparr>
           in if status tc1 = ''running'' then
                (if errors tc1 \<noteq> [] then Inr (tc1\<lparr>status := ''error''\<rparr>)
                 else Inr (tc1\<lparr>status := ''incomplete''\<rparr>))
              else Inr tc1))"

text \<open>
  Every test case carries the key \<^verbatim>\<open>duration\<close>, so the default of
  \<^verbatim>\<open>tc.get("duration", 0)\<close> is never used, and only numbers pass the filter
  \<^verbatim>\<open>if tc.get("duration")\<close>: the \<open>None\<close> branch of the summand is not reached.
\<close>

definition generate_summary :: "results \<Rightarrow> summary" where
  "generate_summary res =
     (let tcs = test_cases res;
          total = length tcs;
          successful = length (filter (\<lambda>tc. status tc = ''success'') tcs);
          failed = length (filter (\<lambda>tc. status tc = ''error'') tcs);
          incomplete = length (filter (\<lambda>tc. status tc = ''incomplete'') tcs);
          total_dur = sum_list (map (\<lambda>tc. case duration tc of None \<Rightarrow> 0 | Some d \<Rightarrow> d)
                        (filter (\<lambda>tc. case duration tc of None \<Rightarrow> False | Some d \<Rightarrow> d \<noteq> 0)
                           tcs));
          average = (if total > 0 then total_dur / of_nat total else 0)
      in \<lparr>total_tests = total,
          successful_tests = successful,
          failed_tests = failed,
          incomplete_tests = incomplete,
          success_rate = (if total > 0 then of_nat successful / of_nat total else 0),
          total_duration = total_dur,
          average_duration = average,
          test_names = map name tcs\<rparr>)"

text \<open>\<^verbatim>\<open>save_results\<close> without the file it writes; \<open>now\<close> is
  \<^verbatim>\<open>datetime.now().isoformat()\<close>.\<close>

definition save_results :: "string \<Rightarrow> results \<Rightarrow> results" where
  "save_results now res =
     res\<lparr>summary := Some (generate_summary res), generated_at := Some now\<rparr>"

section \<open>The reconstruction loop\<close>

text \<open>
  One pass of the loop body of \<^verbatim>\<open>parse_log_file\<close> on a decoded line. The state is
  the \<^verbatim>\<open>results\<close> dict and \<^verbatim>\<open>current_test_case\<close>. The branches are tried in the
  order of the source's \<^verbatim>\<open>if\<close>/\<^verbatim>\<open>elif\<close> chain; \<^verbatim>\<open>log_entry.get\<close> needs a dict.
\<close>

definition process_entry ::
  "(string \<Rightarrow> datetime option) \<Rightarrow> results \<times> test_case option \<Rightarrow> json
     \<Rightarrow> py_error + results \<times> test_case option" where
  "process_entry fromisoformat st entry =
     (case st of (res, current_test_case) \<Rightarrow>
      (case entry of
        JObj log_entry \<Rightarrow>
          (let event_type = dict_get log_entry ''event'' in
           if py_eq event_type (JStr ''run_header'') then
             Inr (res\<lparr>run_info := extract_run_header log_entry\<rparr>, current_test_case)
           else if py_eq event_type (JStr ''connection_opening'') then
             Inr (res, Some (initialize_test_case log_entry))
           else if py_eq event_type (JStr ''sent_request'') then
             (case current_test_case of
                None \<Rightarrow> Inr (res, None)
              | Some tc \<Rightarrow>
                  (case extract_request_data log_entry of
                     Inl err \<Rightarrow> Inl err
                   | Inr r \<Rightarrow> Inr (res, Some (tc\<lparr>request := r\<rparr>))))
           else if has_key log_entry ''case'' \<and> has_key log_entry ''frame'' then
             (case current_test_case of
                None \<Rightarrow> Inr (res, None)
              | Some tc \<Rightarrow>
                  if py_eq (dict_get log_entry ''case'') (name tc) then
                    (case process_frame_data tc (dict_get log_entry ''frame'') of
                       Inl err \<Rightarrow> Inl err
                     | Inr tc' \<Rightarrow> Inr (res, Some tc'))
                  else Inr (res, Some tc))
           else if py_eq event_type (JStr ''connection_closed'') then
             (case current_test_case of
                None \<Rightarrow> Inr (res, None)
              | Some tc \<Rightarrow>
                  (case finalize_test_case fromisoformat (tc\<lparr>end_time := dict_get log_entry ''ts''\<rparr>) of
                     Inl err \<Rightarrow> Inl err
                   | Inr tc' \<Rightarrow> Inr (res\<lparr>test_cases := test_cases res @ [tc']\<rparr>, None)))
           else if py_eq event_type (JStr ''client_error'')
                   \<or> py_eq event_type (JStr ''client_timeout'') then
             (case current_test_case of
                None \<Rightarrow> Inr (res, None)
              | Some tc \<Rightarrow>
                  Inr (res, Some (tc\<lparr>errors := errors tc @
                         [JObj [(''type'', event_type),
                                (''message'',
                                   dict_get_default log_entry ''error''
                                     (JStr ''Timeout occurred'')),
                                (''timestamp'', dict_get log_entry ''ts'')]]\<rparr>)))
           else Inr (res, current_test_case))
      | _ \<Rightarrow> Inl AttributeError))"

text \<open>
  The loop over the lines. \<open>loads line\<close> stands for \<^verbatim>\<open>json.loads(line.strip())\<close>:
  the decoded value, or the exception the decoder raises. The \<^verbatim>\<open>try\<close> of the loop
  catches \<^verbatim>\<open>json.JSONDecodeError\<close> alone and continues with the next line; any other
  exception of the decoder escapes, as do the exceptions of the loop body, and ends the
  loop.
\<close>

fun run_lines ::
  "(string \<Rightarrow> py_error + json) \<Rightarrow> (string \<Rightarrow> datetime option)
     \<Rightarrow> results \<times> test_case option
     \<Rightarrow> string list \<Rightarrow> py_error + results \<times> test_case option" where
  "run_lines loads fromisoformat st [] = Inr st"
| "run_lines loads fromisoformat st (line # lines) =
     (case loads line of
        Inl err \<Rightarrow>
          (if err = JSONDecodeError then run_lines loads fromisoformat st lines
           else Inl err)
      | Inr log_entry \<Rightarrow>
          (case process_entry fromisoformat st log_entry of
             Inl err \<Rightarrow> Inl err
           | Inr st' \<Rightarrow> run_lines loads fromisoformat st' lines))"

definition parse_log_file ::
  "(string \<Rightarrow> py_error + json) \<Rightarrow> (string \<Rightarrow> datetime option) \<Rightarrow> string list
     \<Rightarrow> py_error + results" where
  "parse_log_file loads fromisoformat lines =
     (case run_lines loads fromisoformat
             (\<lparr>run_info = [], test_cases = [], summary = None, generated_at = None\<rparr>, None)
             lines of
        Inl err \<Rightarrow> Inl err
      | Inr (res, current_test_case) \<Rightarrow> Inr res)"

section \<open>Vocabulary of the statements\<close>

text \<open>A decoded line is a run header when the first branch of the loop body takes it.\<close>

definition is_run_header :: "json \<Rightarrow> bool" where
  "is_run_header entry =
     (case entry of
        JObj log_entry \<Rightarrow> dict_get log_entry ''event'' = JStr ''run_header''
      | _ \<Rightarrow> False)"

definition entry_dict :: "json \<Rightarrow> dict" where
  "entry_dict entry = (case entry of JObj log_entry \<Rightarrow> log_entry | _ \<Rightarrow> [])"

text \<open>The values of the lines that decode, in the order of the lines.\<close>

definition decoded_entries :: "(string \<Rightarrow> py_error + json) \<Rightarrow> string list \<Rightarrow> json list" where
  "decoded_entries loads lines =
     List.map_filter (\<lambda>line. case loads line of Inl err \<Rightarrow> None | Inr v \<Rightarrow> Some v) lines"

text \<open>A decoder given by a table: the listed lines decode to the listed values, and every
  other line is not JSON.\<close>

definition table_loads :: "(string \<times> json) list \<Rightarrow> string \<Rightarrow> py_error + json" where
  "table_loads table line =
     (case map_of table line of None \<Rightarrow> Inl JSONDecodeError | Some v \<Rightarrow> Inr v)"

text \<open>
  The four lines of the end-to-end example of the specification, the values
  \<^verbatim>\<open>json.loads\<close> returns for them, and the two timestamps they carry once
  \<^verbatim>\<open>Z\<close> is replaced, as \<^verbatim>\<open>datetime.fromisoformat\<close> returns them.
\<close>

definition example_lines :: "string list" where
  "example_lines =
     [''{\"event\":\"run_header\",\"ts\":\"2025-01-01T00:00:00Z\",\"endpoint_id\":\"default\",\"url\":\"ws://h/p\"}'',
      ''{\"event\":\"connection_opening\",\"case\":\"T1\",\"session\":\"s1\",\"ts\":\"2025-01-01T00:00:00Z\"}'',
      ''{\"case\":\"T1\",\"session\":\"s1\",\"frame\":{\"status\":\"success\",\"message\":\"done\",\"ts\":\"2025-01-01T00:00:02Z\",\"data\":{\"key_findings\":\"k\"}}}'',
      ''{\"event\":\"connection_closed\",\"case\":\"T1\",\"session\":\"s1\",\"ts\":\"2025-01-01T00:00:02Z\"}'']"

definition example_header :: json where
  "example_header =
     JObj [(''event'', JStr ''run_header''), (''ts'', JStr ''2025-01-01T00:00:00Z''),
           (''endpoint_id'', JStr ''default''), (''url'', JStr ''ws://h/p'')]"

definition example_opening :: json where
  "example_opening =
     JObj [(''event'', JStr ''connection_opening''), (''case'', JStr ''T1''),
           (''session'', JStr ''s1''), (''ts'', JStr ''2025-01-01T00:00:00Z'')]"

definition example_frame :: json where
  "example_frame =
     JObj [(''case'', JStr ''T1''), (''session'', JStr ''s1''),
           (''frame'', JObj [(''status'', JStr ''success''), (''message'', JStr ''done''),
                             (''ts'', JStr ''2025-01-01T00:00:02Z''),
                             (''data'', JObj [(''key_findings'', JStr ''k'')])])]"

definition example_closed :: json where
  "example_closed =
     JObj [(''event'', JStr ''connection_closed''), (''case'', JStr ''T1''),
           (''session'', JStr ''s1''), (''ts'', JStr ''2025-01-01T00:00:02Z'')]"

definition example_entries :: "json list" where
  "example_entries = [example_header, example_opening, example_frame, example_closed]"

definition example_datetime :: "int \<Rightarrow> datetime" where
  "example_datetime s =
     \<lparr>year = 2025, month = 1, day = 1, hour = 0, minute = 0, second = s, microsecond = 0,
      utcoffset = Some 0\<rparr>"

definition example_loads :: "string \<Rightarrow> py_error + json" where
  "example_loads = table_loads (zip example_lines example_entries)"

definition example_fromisoformat :: "string \<Rightarrow> datetime option" where
  "example_fromisoformat s =
     (if s = ''2025-01-01T00:00:00+00:00'' then Some (example_datetime 0)
      else if s = ''2025-01-01T00:00:02+00:00'' then Some (example_datetime 2)
      else None)"

text \<open>
  The open case after the lines
  \<^verbatim>\<open>{"event":"connection_opening","case":"T1","session":"s1","ts":5}\<close> and
  \<^verbatim>\<open>{"event":"client_error","case":"T1","error":"boom","ts":"2025-01-01T00:00:01Z"}\<close>.
\<close>

definition running_case_with_error :: test_case where
  "running_case_with_error =
     (initialize_test_case
        [(''event'', JStr ''connection_opening''), (''case'', JStr ''T1''),
         (''session'', JStr ''s1''), (''ts'', JInt 5)])
     \<lparr>errors := [JObj [(''type'', JStr ''client_error''), (''message'', JStr ''boom''),
                       (''timestamp'', JStr ''2025-01-01T00:00:01Z'')]]\<rparr>"

text \<open>A log with two run headers, by line.\<close>

definition two_headers :: "(string \<times> json) list" where
  "two_headers =
     [(''first'', JObj [(''event'', JStr ''run_header''), (''ts'', JStr ''t1''),
                        (''endpoint_id'', JStr ''a''), (''url'', JStr ''ws://a'')]),
      (''second'', JObj [(''event'', JStr ''run_header''), (''ts'', JStr ''t2''),
                         (''endpoint_id'', JStr ''b''), (''url'', JStr ''ws://b'')])]"

section \<open>Basic facts\<close>

lemma py_eq_JStr [simp]: "py_eq a (JStr s) = (a = JStr s)"
  by (cases a) auto

lemma replace_Z_examples:
  "replace_Z ''2025-01-01T00:00:00Z'' = ''2025-01-01T00:00:00+00:00''"
  "replace_Z ''2025-01-01T00:00:02Z'' = ''2025-01-01T00:00:02+00:00''"
  by (simp_all add: replace_Z_def)

lemma example_duration:
  "datetime_sub (example_datetime 2) (example_datetime 0) = Inr 2000000"
  by (simp add: datetime_sub_def example_datetime_def toordinal_def)

lemma example_compute_duration:
  assumes "fromisoformat ''2025-01-01T00:00:00+00:00'' = Some (example_datetime 0)"
    and "fromisoformat ''2025-01-01T00:00:02+00:00'' = Some (example_datetime 2)"
  shows "compute_duration fromisoformat
           (JStr ''2025-01-01T00:00:00Z'') (JStr ''2025-01-01T00:00:02Z'') = Inr (Some 2)"
  by (simp add: compute_duration_def replace_Z_examples assms example_duration
      total_seconds_def)

lemma example_fromisoformat_simps:
  "example_fromisoformat ''2025-01-01T00:00:00+00:00'' = Some (example_datetime 0)"
  "example_fromisoformat ''2025-01-01T00:00:02+00:00'' = Some (example_datetime 2)"
  by (simp_all add: example_fromisoformat_def)

section \<open>The end-to-end example\<close>

text \<open>
  Claim C1. Feeding the reconstructor the four log lines of the end-to-end example
  (run header, opening of case \<open>T1\<close> at 00:00:00, a success frame for \<open>T1\<close> with
  \<open>key_findings = k\<close> at 00:00:02, close at 00:00:02) yields exactly one test case,
  named \<open>T1\<close>, with status \<open>success\<close>, duration 2.0 and \<open>key_findings\<close> equal to
  \<open>k\<close> in its final result, and a summary with one test, one success and a success
  rate of 1.0. The decoder and the timestamp parser are the library's: the statement
  holds for any pair of them that returns what the library returns on these lines.
\<close>

theorem end_to_end_example:
  assumes "map loads example_lines = map Inr example_entries"
    and "fromisoformat ''2025-01-01T00:00:00+00:00'' = Some (example_datetime 0)"
    and "fromisoformat ''2025-01-01T00:00:02+00:00'' = Some (example_datetime 2)"
  shows "\<exists>res tc. parse_log_file loads fromisoformat example_lines = Inr res
           \<and> test_cases res = [tc]
           \<and> name tc = JStr ''T1''
           \<and> status tc = ''success''
           \<and> duration tc = Some 2
           \<and> dict_get (final_result tc) ''key_findings'' = JStr ''k''
           \<and> total_tests (generate_summary res) = 1
           \<and> successful_tests (generate_summary res) = 1
           \<and> success_rate (generate_summary res) = 1"
proof -
  let ?r0 = "\<lparr>run_info = [], test_cases = [], summary = None, generated_at = None\<rparr>"
  note defs = process_entry_def has_key_def dict_get_def dict_get_default_def Let_def
  obtain l0 l1 l2 l3 where l: "example_lines = [l0, l1, l2, l3]"
    by (simp add: example_lines_def)
  have lo: "loads l0 = Inr example_header" "loads l1 = Inr example_opening"
    "loads l2 = Inr example_frame" "loads l3 = Inr example_closed"
    using assms(1) by (simp_all add: l example_entries_def)
  have "\<exists>r1. process_entry fromisoformat (?r0, None) example_header = Inr (r1, None)
          \<and> test_cases r1 = []"
    by (simp add: defs example_header_def)
  then obtain r1 where
    s1: "process_entry fromisoformat (?r0, None) example_header = Inr (r1, None)"
    and r1: "test_cases r1 = []"
    by blast
  have "\<exists>t1. process_entry fromisoformat (r1, None) example_opening = Inr (r1, Some t1)
          \<and> name t1 = JStr ''T1'' \<and> start_time t1 = JStr ''2025-01-01T00:00:00Z''"
    by (simp add: defs example_opening_def initialize_test_case_def)
  then obtain t1 where
    s2: "process_entry fromisoformat (r1, None) example_opening = Inr (r1, Some t1)"
    and t1: "name t1 = JStr ''T1''" "start_time t1 = JStr ''2025-01-01T00:00:00Z''"
    by blast
  have "\<exists>t2. process_entry fromisoformat (r1, Some t1) example_frame = Inr (r1, Some t2)
          \<and> name t2 = JStr ''T1'' \<and> status t2 = ''success''
          \<and> dict_get (final_result t2) ''key_findings'' = JStr ''k''
          \<and> start_time t2 = JStr ''2025-01-01T00:00:00Z''"
    using t1
    by (simp add: defs example_frame_def process_frame_data_def extract_success_data_def)
  then obtain t2 where
    s3: "process_entry fromisoformat (r1, Some t1) example_frame = Inr (r1, Some t2)"
    and t2: "name t2 = JStr ''T1''" "status t2 = ''success''"
      "dict_get (final_result t2) ''key_findings'' = JStr ''k''"
      "start_time t2 = JStr ''2025-01-01T00:00:00Z''"
    by blast
  note d = example_compute_duration [OF assms(2,3)]
  have "\<exists>r2 t3. process_entry fromisoformat (r1, Some t2) example_closed = Inr (r2, None)
          \<and> test_cases r2 = [t3]
          \<and> name t3 = JStr ''T1'' \<and> status t3 = ''success'' \<and> duration t3 = Some 2
          \<and> final_result t3 = final_result t2"
    using t2 d r1
    by (simp add: process_entry_def has_key_def Let_def example_closed_def
        finalize_test_case_def dict_get_def [of "[_, _, _, _]"])
  then obtain r2 t3 where
    s4: "process_entry fromisoformat (r1, Some t2) example_closed = Inr (r2, None)"
    and t3: "test_cases r2 = [t3]" "name t3 = JStr ''T1''" "status t3 = ''success''"
      "duration t3 = Some 2" "final_result t3 = final_result t2"
    by blast
  have "parse_log_file loads fromisoformat example_lines = Inr r2"
    unfolding parse_log_file_def by (simp add: l lo s1 s2 s3 s4)
  with t3 t2 show ?thesis
    by (simp add: generate_summary_def)
qed

theorem end_to_end_example_witness:
  "\<exists>res tc. parse_log_file example_loads example_fromisoformat example_lines = Inr res
           \<and> test_cases res = [tc]
           \<and> name tc = JStr ''T1''
           \<and> status tc = ''success''
           \<and> duration tc = Some 2
           \<and> dict_get (final_result tc) ''key_findings'' = JStr ''k''
           \<and> total_tests (generate_summary res) = 1
           \<and> successful_tests (generate_summary res) = 1
           \<and> success_rate (generate_summary res) = 1"
proof -
  have a: "map example_loads example_lines = map Inr example_entries"
    by (simp add: example_loads_def table_loads_def example_lines_def example_entries_def)
  show ?thesis
    by (rule end_to_end_example [OF a example_fromisoformat_simps])
qed

section \<open>The summary\<close>

lemma sum_truthy_durations:
  "sum_list (map (\<lambda>tc. case duration tc of None \<Rightarrow> 0 | Some d \<Rightarrow> d)
      (filter (\<lambda>tc. case duration tc of None \<Rightarrow> False | Some d \<Rightarrow> d \<noteq> 0) tcs))
   = sum_list (map (\<lambda>tc. the (duration tc)) (filter (\<lambda>tc. duration tc \<noteq> None) tcs))"
  by (induction tcs) (auto split: option.splits)

text \<open>
  Claim C3. For every list of finalized test cases, the summary's total duration is the
  sum of the durations of exactly the cases whose duration is not null; the success rate
  is the number of successful tests divided by the number of tests when there is at least
  one test, and 0 otherwise; the average duration is the total duration divided by the
  number of tests (all of them, not only those with a duration), and 0 when there is no
  test.
\<close>

theorem summary_totals:
  "total_tests (generate_summary res) = length (test_cases res)
   \<and> successful_tests (generate_summary res)
       = length (filter (\<lambda>tc. status tc = ''success'') (test_cases res))
   \<and> total_duration (generate_summary res)
       = sum_list (map (\<lambda>tc. the (duration tc))
           (filter (\<lambda>tc. duration tc \<noteq> None) (test_cases res)))
   \<and> success_rate (generate_summary res)
       = (if total_tests (generate_summary res) > 0
          then of_nat (successful_tests (generate_summary res))
               / of_nat (total_tests (generate_summary res))
          else 0)
   \<and> average_duration (generate_summary res)
       = (if total_tests (generate_summary res) > 0
          then total_duration (generate_summary res)
               / of_nat (total_tests (generate_summary res))
          else 0)"
  unfolding generate_summary_def Let_def
  by (simp add: sum_truthy_durations)

section \<open>Lines that do not decode\<close>

lemma run_lines_skip:
  "run_lines loads f st lines
     = run_lines loads f st (filter (\<lambda>l. loads l \<noteq> Inl JSONDecodeError) lines)"
  by (induction lines arbitrary: st) (auto split: sum.splits)

lemma run_lines_all_malformed:
  "run_lines loads f st (filter (\<lambda>l. loads l = Inl JSONDecodeError) lines) = Inr st"
  by (induction lines) auto

lemma parse_log_file_skip:
  "parse_log_file loads f lines
     = parse_log_file loads f (filter (\<lambda>l. loads l \<noteq> Inl JSONDecodeError) lines)"
proof -
  have "run_lines loads f st (filter (\<lambda>l. loads l \<noteq> Inl JSONDecodeError) lines)
          = run_lines loads f st lines" for st
    by (rule run_lines_skip [symmetric])
  then show ?thesis
    unfolding parse_log_file_def by (simp only:)
qed

text \<open>
  Claim C7. For every sequence of input lines, the lines that fail to decode as JSON
  never make the reconstructor raise: each is skipped without any change of state. The
  code does this for the lines on which the decoder raises \<^verbatim>\<open>JSONDecodeError\<close>
  (\<open>parse_log_file_skip\<close>) and for no other: on a line on which the decoder raises
  \<^verbatim>\<open>RecursionError\<close>, as it does on a line of 2000 opening brackets, the exception
  escapes the loop and the reconstruction, whatever the state, the decoder's answers on
  the other lines and the lines that follow.
\<close>

theorem undecodable_line_raises:
  "run_lines (loads(line := Inl RecursionError)) fromisoformat st (line # lines)
     = Inl RecursionError
   \<and> parse_log_file (loads(line := Inl RecursionError)) fromisoformat (line # lines)
     = Inl RecursionError"
  by (simp add: parse_log_file_def)

section \<open>Run headers\<close>

lemma process_entry_run_info:
  assumes "process_entry f (res, cur) entry = Inr (res', cur')"
  shows "run_info res' = (if is_run_header entry then extract_run_header (entry_dict entry)
                          else run_info res)"
  using assms
  unfolding process_entry_def is_run_header_def entry_dict_def
  by (auto simp: Let_def split: json.splits if_splits option.splits sum.splits)

lemma run_lines_run_info:
  assumes "run_lines loads f (res, cur) lines = Inr (res', cur')"
  shows "run_info res' =
           (case filter is_run_header (decoded_entries loads lines) of
              [] \<Rightarrow> run_info res
            | h # hs \<Rightarrow> extract_run_header (entry_dict (last (h # hs))))"
  using assms
proof (induction lines arbitrary: res cur)
  case Nil
  then show ?case by (simp add: decoded_entries_def)
next
  case (Cons l ls)
  show ?case
  proof (cases "loads l")
    case (Inl err)
    with Cons.prems have "run_lines loads f (res, cur) ls = Inr (res', cur')"
      by (simp split: if_splits)
    from Cons.IH [OF this] Inl show ?thesis
      by (simp add: decoded_entries_def)
  next
    case (Inr entry)
    with Cons.prems obtain res1 cur1 where
      step: "process_entry f (res, cur) entry = Inr (res1, cur1)"
      and rest: "run_lines loads f (res1, cur1) ls = Inr (res', cur')"
      by (auto split: sum.splits)
    from Cons.IH [OF rest] process_entry_run_info [OF step] Inr
    show ?thesis
      by (auto simp: decoded_entries_def split: list.splits)
  qed
qed

text \<open>
  Claim C8. When the input holds more than one run header, the last one wins: the
  \<open>run_info\<close> of the output is the extraction (timestamp, endpoint id, websocket URL)
  of the last run header of the log. It is proved for every log with at least one run
  header.
\<close>

theorem run_info_last_write_wins:
  assumes "parse_log_file loads fromisoformat lines = Inr res"
    and "filter is_run_header (decoded_entries loads lines) \<noteq> []"
  shows "run_info res
           = extract_run_header
               (entry_dict (last (filter is_run_header (decoded_entries loads lines))))"
proof -
  from assms(1) obtain cur where
    "run_lines loads fromisoformat
       (\<lparr>run_info = [], test_cases = [], summary = None, generated_at = None\<rparr>, None) lines
     = Inr (res, cur)"
    unfolding parse_log_file_def by (auto split: sum.splits)
  from run_lines_run_info [OF this] assms(2) show ?thesis
    by (auto split: list.splits)
qed

theorem run_info_last_write_wins_witness:
  "parse_log_file (table_loads two_headers) example_fromisoformat [''first'', ''second'']
     = Inr \<lparr>run_info = [(''timestamp'', JStr ''t2''), (''endpoint_id'', JStr ''b''),
                         (''websocket_url'', JStr ''ws://b'')],
            test_cases = [], summary = None, generated_at = None\<rparr>
   \<and> length (filter is_run_header
        (decoded_entries (table_loads two_headers) [''first'', ''second''])) = 2
   \<and> extract_run_header
        (entry_dict (last (filter is_run_header
           (decoded_entries (table_loads two_headers) [''first'', ''second'']))))
       = [(''timestamp'', JStr ''t2''), (''endpoint_id'', JStr ''b''),
          (''websocket_url'', JStr ''ws://b'')]"
proof -
  have p: "parse_log_file (table_loads two_headers) example_fromisoformat
             [''first'', ''second'']
     = Inr \<lparr>run_info = [(''timestamp'', JStr ''t2''), (''endpoint_id'', JStr ''b''),
                         (''websocket_url'', JStr ''ws://b'')],
            test_cases = [], summary = None, generated_at = None\<rparr>"
    by (simp add: parse_log_file_def table_loads_def two_headers_def process_entry_def
        dict_get_def extract_run_header_def Let_def)
  have n: "length (filter is_run_header
             (decoded_entries (table_loads two_headers) [''first'', ''second''])) = 2"
    by (simp add: decoded_entries_def table_loads_def two_headers_def is_run_header_def
        dict_get_def)
  then have ne: "filter is_run_header
             (decoded_entries (table_loads two_headers) [''first'', ''second'']) \<noteq> []"
    by auto
  from run_info_last_write_wins [OF p ne] p n show ?thesis by simp
qed

section \<open>Reopening a case\<close>

text \<open>
  Claim C5. When a \<open>connection_opening\<close> event arrives while a test case is open, the
  open case is discarded: the step leaves the list of finished test cases as it was (the
  open case is neither appended nor flushed as incomplete) and replaces the open case by
  a fresh one, and the whole remaining run, hence the output and every count of its
  summary, is the run that starts from the same results with no case open.
\<close>

theorem reopen_discards_open_case:
  assumes "loads line = Inr (JObj log_entry)"
    and "dict_get log_entry ''event'' = JStr ''connection_opening''"
  shows "process_entry fromisoformat (res, Some tc) (JObj log_entry)
           = Inr (res, Some (initialize_test_case log_entry))
       \<and> run_lines loads fromisoformat (res, Some tc) (line # lines)
           = run_lines loads fromisoformat (res, None) (line # lines)"
proof -
  have step: "process_entry fromisoformat (res, cur) (JObj log_entry)
                = Inr (res, Some (initialize_test_case log_entry))" for cur
    using assms(2) unfolding process_entry_def by simp
  show ?thesis by (simp add: step assms(1))
qed

theorem reopen_discards_open_case_witness:
  "process_entry example_fromisoformat
     (\<lparr>run_info = [], test_cases = [], summary = None, generated_at = None\<rparr>,
      Some (initialize_test_case [(''case'', JStr ''T0'')]))
     example_opening
   = Inr (\<lparr>run_info = [], test_cases = [], summary = None, generated_at = None\<rparr>,
          Some (initialize_test_case (entry_dict example_opening)))
   \<and> run_lines example_loads example_fromisoformat
       (\<lparr>run_info = [], test_cases = [], summary = None, generated_at = None\<rparr>,
        Some (initialize_test_case [(''case'', JStr ''T0'')]))
       (tl example_lines)
     = run_lines example_loads example_fromisoformat
       (\<lparr>run_info = [], test_cases = [], summary = None, generated_at = None\<rparr>, None)
       (tl example_lines)"
proof -
  obtain l ls where l: "tl example_lines = l # ls"
    and lo: "example_loads l = Inr (JObj (entry_dict example_opening))"
    by (simp add: example_lines_def example_loads_def table_loads_def example_entries_def
        entry_dict_def example_opening_def)
  have ev: "dict_get (entry_dict example_opening) ''event'' = JStr ''connection_opening''"
    by (simp add: entry_dict_def example_opening_def dict_get_def)
  have o: "example_opening = JObj (entry_dict example_opening)"
    by (simp add: entry_dict_def example_opening_def)
  show ?thesis
    unfolding l
    by (subst o)
      (rule reopen_discards_open_case [where loads = example_loads and line = l, OF lo ev])
qed

section \<open>Frames of another case\<close>

text \<open>The frame branch comes fourth in the loop body: it is reached by every record that
  the three branches on \<open>event\<close> before it do not take.\<close>

lemma frame_branch_ignores_unmatched:
  assumes "has_key log_entry ''case''" and "has_key log_entry ''frame''"
    and "dict_get log_entry ''event'' \<noteq> JStr ''run_header''"
    and "dict_get log_entry ''event'' \<noteq> JStr ''connection_opening''"
    and "dict_get log_entry ''event'' \<noteq> JStr ''sent_request''"
    and "cur = None \<or> (\<exists>tc. cur = Some tc \<and> \<not> py_eq (dict_get log_entry ''case'') (name tc))"
  shows "process_entry fromisoformat (res, cur) (JObj log_entry) = Inr (res, cur)"
  using assms unfolding process_entry_def
  by (auto simp: Let_def)

text \<open>
  Claim C6. For every frame record (a record with both a \<open>case\<close> and a \<open>frame\<close> key,
  which carries no \<open>event\<close> key) whose \<open>case\<close> differs from the name of the open test
  case, or which arrives when no case is open, the reconstruction state is unchanged: the
  results and the open case after the step are those before it, so the frame enters no
  test case's responses, progress messages, final result or errors.
\<close>

theorem unmatched_frame_ignored:
  assumes "has_key log_entry ''case''" and "has_key log_entry ''frame''"
    and "\<not> has_key log_entry ''event''"
    and "cur = None \<or> (\<exists>tc. cur = Some tc \<and> \<not> py_eq (dict_get log_entry ''case'') (name tc))"
  shows "process_entry fromisoformat (res, cur) (JObj log_entry) = Inr (res, cur)"
proof -
  from assms(3) have "dict_get log_entry ''event'' = JNull"
    by (simp add: has_key_def dict_get_def)
  then show ?thesis
    using assms(1,2,4) by (intro frame_branch_ignores_unmatched) simp_all
qed

theorem unmatched_frame_ignored_witness:
  "process_entry example_fromisoformat
     (\<lparr>run_info = [], test_cases = [], summary = None, generated_at = None\<rparr>,
      Some (initialize_test_case [(''case'', JStr ''T2'')]))
     example_frame
   = Inr (\<lparr>run_info = [], test_cases = [], summary = None, generated_at = None\<rparr>,
          Some (initialize_test_case [(''case'', JStr ''T2'')]))"
proof -
  obtain d where d: "example_frame = JObj d" "has_key d ''case''" "has_key d ''frame''"
    "\<not> has_key d ''event''" "dict_get d ''case'' = JStr ''T1''"
    by (simp add: example_frame_def has_key_def dict_get_def)
  have n: "name (initialize_test_case [(''case'', JStr ''T2'')]) = JStr ''T2''"
    by (simp add: initialize_test_case_def dict_get_def)
  show ?thesis
    unfolding d(1)
    by (rule unmatched_frame_ignored) (simp_all add: d n)
qed

section \<open>Finalization\<close>

lemma compute_duration_missing:
  "\<not> truthy s \<or> \<not> truthy e \<Longrightarrow> compute_duration f s e = Inr None"
  by (auto simp: compute_duration_def)

lemma compute_duration_unparsed_start:
  "f (replace_Z s) = None \<Longrightarrow> compute_duration f (JStr s) e = Inr None"
  by (simp add: compute_duration_def)

lemma compute_duration_unparsed_end:
  "f (replace_Z s) = Some a \<Longrightarrow> f (replace_Z e) = None
     \<Longrightarrow> compute_duration f (JStr s) (JStr e) = Inr None"
  by (simp add: compute_duration_def)

lemma compute_duration_parsed:
  "s \<noteq> [] \<Longrightarrow> e \<noteq> [] \<Longrightarrow> f (replace_Z s) = Some a \<Longrightarrow> f (replace_Z e) = Some b
     \<Longrightarrow> datetime_sub b a = Inr us
     \<Longrightarrow> compute_duration f (JStr s) (JStr e) = Inr (Some (total_seconds us))"
  by (simp add: compute_duration_def)

lemma compute_duration_mixed_awareness:
  "s \<noteq> [] \<Longrightarrow> e \<noteq> [] \<Longrightarrow> f (replace_Z s) = Some a \<Longrightarrow> f (replace_Z e) = Some b
     \<Longrightarrow> (utcoffset a = None) \<noteq> (utcoffset b = None)
     \<Longrightarrow> compute_duration f (JStr s) (JStr e) = Inl TypeError"
  by (auto simp: compute_duration_def datetime_sub_def Let_def split: option.splits)

text \<open>Where the duration block yields a duration, null or not, finalization returns the
  case with the status of the status block.\<close>

lemma finalize_status_after_duration:
  assumes "compute_duration fromisoformat (start_time tc) (end_time tc) = Inr d"
  shows "\<exists>tc'. finalize_test_case fromisoformat tc = Inr tc'
           \<and> duration tc' = d
           \<and> errors tc' = errors tc
           \<and> status tc' =
               (if status tc = ''running''
                then (if errors tc \<noteq> [] then ''error'' else ''incomplete'')
                else status tc)"
  using assms
  by (simp add: finalize_test_case_def Let_def)

text \<open>
  Claim C2. For a test case finalized on \<open>connection_closed\<close>, the duration is the end
  time minus the start time in seconds when both timestamps are present and parse, and
  is null, finalization never raising, when either is absent or fails to parse, whatever
  the values, strings or not. The code does not do this for a timestamp that is not a string:
  an opening event with \<open>ts = 5\<close> followed by the closing event of the example makes
  finalization raise \<^verbatim>\<open>AttributeError\<close>, whatever the parser.
\<close>

theorem finalize_raises_on_non_string_timestamp:
  "process_entry fromisoformat (res, None)
       (JObj [(''event'', JStr ''connection_opening''), (''case'', JStr ''T1''),
              (''session'', JStr ''s1''), (''ts'', JInt 5)])
     = Inr (res, Some (initialize_test_case
              [(''event'', JStr ''connection_opening''), (''case'', JStr ''T1''),
               (''session'', JStr ''s1''), (''ts'', JInt 5)]))
   \<and> process_entry fromisoformat
       (res, Some (initialize_test_case
              [(''event'', JStr ''connection_opening''), (''case'', JStr ''T1''),
               (''session'', JStr ''s1''), (''ts'', JInt 5)]))
       example_closed
     = Inl AttributeError"
  by (simp add: process_entry_def has_key_def dict_get_def Let_def initialize_test_case_def
      finalize_test_case_def compute_duration_def example_closed_def)

text \<open>
  Claim C4. For every test case whose status is still \<open>running\<close> when its
  \<open>connection_closed\<close> event is processed, finalization sets the status to \<open>error\<close> if
  the list of errors is not empty and to \<open>incomplete\<close> if it is empty; a case that
  received a success or an error frame keeps that status at close. The code does not do
  this for every such case: the status block comes after the duration block, and a case
  opened with \<open>ts = 5\<close> that has recorded a client error is still \<open>running\<close> with one
  error when the closing event of the example arrives, yet finalization raises
  \<^verbatim>\<open>AttributeError\<close> instead of setting the status to \<open>error\<close>, whatever the parser.
\<close>

theorem running_case_not_finalized:
  "status (running_case_with_error) = ''running''
   \<and> errors (running_case_with_error) \<noteq> []
   \<and> finalize_test_case fromisoformat
       (running_case_with_error\<lparr>end_time := JStr ''2025-01-01T00:00:02Z''\<rparr>)
     = Inl AttributeError
   \<and> process_entry fromisoformat (res, Some running_case_with_error) example_closed
     = Inl AttributeError"
  by (simp add: running_case_with_error_def process_entry_def has_key_def dict_get_def
      Let_def initialize_test_case_def finalize_test_case_def compute_duration_def
      example_closed_def)

section \<open>The request snapshot\<close>

text \<open>
  Claim C10. For every \<open>sent_request\<close> event, a \<open>session_id\<close> key of the request
  payload is dropped from the extracted snapshot: it is neither a named field nor a key
  of \<open>additional_params\<close>, and the snapshot is the one of the payload without that key;
  every other key outside the recognized set (\<open>prompt\<close>, \<open>env_id\<close>, \<open>where\<close>,
  \<open>when\<close>, \<open>metricFilters\<close>, \<open>useVectorSearch\<close>) is kept in \<open>additional_params\<close>
  with its value.
\<close>

theorem request_session_id_dropped:
  assumes "dict_get_default log_entry ''request'' (JObj []) = JObj request_data"
  shows "\<exists>r extra. extract_request_data log_entry = Inr r
           \<and> map_of r ''additional_params'' = Some (JObj extra)
           \<and> map_of r ''session_id'' = None
           \<and> map_of extra ''session_id'' = None
           \<and> (\<forall>k. k \<notin> set [''prompt'', ''env_id'', ''session_id'', ''where'', ''when'',
                              ''metricFilters'', ''useVectorSearch'']
                  \<longrightarrow> map_of extra k = map_of request_data k)
           \<and> extract_request_data
                [(''request'', JObj (filter (\<lambda>(k, v). k \<noteq> ''session_id'') request_data))]
               = Inr r"
proof -
  let ?core = "[''prompt'', ''env_id'', ''session_id'', ''where'', ''when'',
                ''metricFilters'', ''useVectorSearch'']"
  let ?extra = "filter (\<lambda>(k, v). k \<notin> set ?core) request_data"
  let ?rest = "filter (\<lambda>(k, v). k \<noteq> ''session_id'') request_data"
  have keep: "map_of ?rest k = map_of request_data k" if "k \<noteq> ''session_id''" for k
    using that by (induction request_data) auto
  have g: "dict_get ?rest k = dict_get request_data k"
    "dict_get_default ?rest k dflt = dict_get_default request_data k dflt"
    if "k \<noteq> ''session_id''" for k dflt
    using keep [OF that] by (simp_all add: dict_get_def dict_get_default_def)
  have same: "filter (\<lambda>(k, v). k \<notin> set ?core) ?rest = ?extra"
    unfolding filter_filter by (rule filter_cong) auto
  have no: "map_of ?extra ''session_id'' = None"
    by (induction request_data) auto
  have other: "map_of ?extra k = map_of request_data k" if "k \<notin> set ?core" for k
    using that by (induction request_data) auto
  have r1: "extract_request_data log_entry
              = Inr [(''prompt'', dict_get request_data ''prompt''),
                     (''env_id'', dict_get request_data ''env_id''),
                     (''where'', dict_get request_data ''where''),
                     (''when'', dict_get request_data ''when''),
                     (''metric_filters'',
                        dict_get_default request_data ''metricFilters'' (JArr [])),
                     (''use_vector_search'',
                        dict_get_default request_data ''useVectorSearch'' (JBool False)),
                     (''additional_params'', JObj ?extra)]"
    (is "_ = Inr ?r")
    using assms by (simp add: extract_request_data_def)
  have gs: "dict_get ?rest ''prompt'' = dict_get request_data ''prompt''"
    "dict_get ?rest ''env_id'' = dict_get request_data ''env_id''"
    "dict_get ?rest ''where'' = dict_get request_data ''where''"
    "dict_get ?rest ''when'' = dict_get request_data ''when''"
    "dict_get_default ?rest ''metricFilters'' (JArr [])
       = dict_get_default request_data ''metricFilters'' (JArr [])"
    "dict_get_default ?rest ''useVectorSearch'' (JBool False)
       = dict_get_default request_data ''useVectorSearch'' (JBool False)"
    by (simp_all add: g)
  have "extract_request_data [(''request'', JObj ?rest)]
          = Inr [(''prompt'', dict_get ?rest ''prompt''),
                 (''env_id'', dict_get ?rest ''env_id''),
                 (''where'', dict_get ?rest ''where''),
                 (''when'', dict_get ?rest ''when''),
                 (''metric_filters'', dict_get_default ?rest ''metricFilters'' (JArr [])),
                 (''use_vector_search'',
                    dict_get_default ?rest ''useVectorSearch'' (JBool False)),
                 (''additional_params'', JObj (filter (\<lambda>(k, v). k \<notin> set ?core) ?rest))]"
    by (simp add: extract_request_data_def dict_get_default_def [of "[_]"]
        del: filter_filter)
  then have r2: "extract_request_data [(''request'', JObj ?rest)] = Inr ?r"
    by (simp only: gs same)
  have "map_of ?r ''additional_params'' = Some (JObj ?extra)"
       "map_of ?r ''session_id'' = None"
    by simp_all
  with r1 r2 no other show ?thesis by blast
qed

theorem request_session_id_dropped_witness:
  "\<exists>r extra. extract_request_data
       [(''event'', JStr ''sent_request''),
        (''request'', JObj [(''prompt'', JStr ''p''), (''session_id'', JStr ''s1''),
                            (''limit'', JInt 3)])] = Inr r
     \<and> map_of r ''additional_params'' = Some (JObj extra)
     \<and> map_of r ''session_id'' = None
     \<and> map_of extra ''session_id'' = None
     \<and> map_of extra ''limit'' = Some (JInt 3)"
proof -
  have h: "dict_get_default
             [(''event'', JStr ''sent_request''),
              (''request'', JObj [(''prompt'', JStr ''p''), (''session_id'', JStr ''s1''),
                                  (''limit'', JInt 3)])] ''request'' (JObj [])
           = JObj [(''prompt'', JStr ''p''), (''session_id'', JStr ''s1''), (''limit'', JInt 3)]"
    by (simp add: dict_get_default_def)
  from request_session_id_dropped [OF h] obtain r extra where
    "extract_request_data
       [(''event'', JStr ''sent_request''),
        (''request'', JObj [(''prompt'', JStr ''p''), (''session_id'', JStr ''s1''),
                            (''limit'', JInt 3)])] = Inr r"
    "map_of r ''additional_params'' = Some (JObj extra)"
    "map_of r ''session_id'' = None"
    "map_of extra ''session_id'' = None"
    "\<forall>k. k \<notin> set [''prompt'', ''env_id'', ''session_id'', ''where'', ''when'',
                     ''metricFilters'', ''useVectorSearch'']
         \<longrightarrow> map_of extra k
               = map_of [(''prompt'', JStr ''p''), (''session_id'', JStr ''s1''),
                         (''limit'', JInt 3)] k"
    by blast
  then show ?thesis by auto
qed

end
